theory Spec2Isabelle
  imports Complex_Main
begin

section \<open>The product text customizer: a canvas preview of text over a product image\<close>

text \<open>
  The script under verification is \<^verbatim>\<open>src/unnamed/part_000\<close>: the function
  \<^verbatim>\<open>initializeProductCustomizer(blockId, config)\<close> with its inner handlers
  \<^verbatim>\<open>baseImage.onload\<close>, \<^verbatim>\<open>baseImage.onerror\<close>, \<^verbatim>\<open>redrawCanvas\<close> and
  \<^verbatim>\<open>handleTextInput\<close>. The variables the closures share (\<^verbatim>\<open>currentText\<close>,
  \<^verbatim>\<open>baseImage\<close>, \<^verbatim>\<open>canvas\<close>, \<^verbatim>\<open>ctx\<close>, \<^verbatim>\<open>textInput\<close>) become one record that every
  handler takes and returns.

  Modelling decisions, fixed here once:
  \<^item> A JavaScript number is a real number, one of the two infinities, or NaN. A product or
    a quotient of two finite numbers is the exact result rounded to a double; the rounding
    is a parameter \<open>rnd\<close> of every function that computes, and every general theorem holds
    for every rounding. The negative zero is identified with zero; no divisor of the script
    can be a negative zero.
  \<^item> A property that may be \<^verbatim>\<open>undefined\<close> is an \<open>option\<close>, \<open>None\<close> being \<^verbatim>\<open>undefined\<close>.
  \<^item> Strings are byte lists in UTF-8; the two Chinese messages painted on the canvas are
    written out byte by byte.
  \<^item> \<^verbatim>\<open>canvas.width\<close> and \<^verbatim>\<open>canvas.height\<close> are the unsigned integers of the canvas
    element: an assignment converts the number assigned to an integer, writes the
    \<^verbatim>\<open>width\<close> attribute, clears the bitmap and resets the drawing state, as the host does.
    The properties of the drawing context are plain stores.
  \<^item> The canvas bitmap is the list of drawing operations that have painted it since it was
    last cleared as a whole.
\<close>

subsection \<open>JavaScript numbers\<close>

datatype jsnum = Num real | PosInf | NegInf | NaN

text \<open>\<^verbatim>\<open>a * b\<close>, the exact product of two finite numbers rounded by \<open>rnd\<close>.\<close>

fun jmul :: "(real \<Rightarrow> jsnum) \<Rightarrow> jsnum \<Rightarrow> jsnum \<Rightarrow> jsnum" where
  "jmul rnd NaN _ = NaN"
| "jmul rnd _ NaN = NaN"
| "jmul rnd (Num a) (Num b) = rnd (a * b)"
| "jmul rnd (Num a) PosInf = (if a = 0 then NaN else if 0 < a then PosInf else NegInf)"
| "jmul rnd (Num a) NegInf = (if a = 0 then NaN else if 0 < a then NegInf else PosInf)"
| "jmul rnd PosInf (Num b) = (if b = 0 then NaN else if 0 < b then PosInf else NegInf)"
| "jmul rnd NegInf (Num b) = (if b = 0 then NaN else if 0 < b then NegInf else PosInf)"
| "jmul rnd PosInf PosInf = PosInf"
| "jmul rnd PosInf NegInf = NegInf"
| "jmul rnd NegInf PosInf = NegInf"
| "jmul rnd NegInf NegInf = PosInf"

text \<open>
  \<^verbatim>\<open>a / b\<close>, the exact quotient of two finite numbers rounded by \<open>rnd\<close>; a zero divisor
  is the positive zero.
\<close>

fun jdiv :: "(real \<Rightarrow> jsnum) \<Rightarrow> jsnum \<Rightarrow> jsnum \<Rightarrow> jsnum" where
  "jdiv rnd NaN _ = NaN"
| "jdiv rnd _ NaN = NaN"
| "jdiv rnd (Num a) (Num b) =
     (if b = 0 then (if a = 0 then NaN else if 0 < a then PosInf else NegInf)
      else rnd (a / b))"
| "jdiv rnd (Num a) PosInf = Num 0"
| "jdiv rnd (Num a) NegInf = Num 0"
| "jdiv rnd PosInf (Num b) = (if 0 \<le> b then PosInf else NegInf)"
| "jdiv rnd NegInf (Num b) = (if 0 \<le> b then NegInf else PosInf)"
| "jdiv rnd PosInf PosInf = NaN"
| "jdiv rnd PosInf NegInf = NaN"
| "jdiv rnd NegInf PosInf = NaN"
| "jdiv rnd NegInf NegInf = NaN"

text \<open>
  The rounding where it has nothing to round: a result that a double holds exactly is that
  result. It stands for the rounding only in the evaluations at the concrete states below,
  which are chosen so that every product and quotient the script forms on them is an
  integer below \<open>2^53\<close>, or a quarter or an eighth of such an integer.
\<close>

definition exact :: "real \<Rightarrow> jsnum" where
  "exact x = Num x"

text \<open>\<^verbatim>\<open>a > b\<close>: false as soon as one side is NaN.\<close>

fun jgt :: "jsnum \<Rightarrow> jsnum \<Rightarrow> bool" where
  "jgt NaN _ = False"
| "jgt _ NaN = False"
| "jgt (Num a) (Num b) = (b < a)"
| "jgt PosInf PosInf = False"
| "jgt PosInf _ = True"
| "jgt _ PosInf = False"
| "jgt NegInf _ = False"
| "jgt _ NegInf = True"

text \<open>Truthiness of a number: zero and NaN are falsy.\<close>

fun num_truthy :: "jsnum \<Rightarrow> bool" where
  "num_truthy (Num a) = (a \<noteq> 0)"
| "num_truthy NaN = False"
| "num_truthy _ = True"

text \<open>\<^verbatim>\<open>x || d\<close> for a possibly undefined number \<open>x\<close> and a default \<open>d\<close>.\<close>

fun num_or :: "jsnum option \<Rightarrow> jsnum \<Rightarrow> jsnum" where
  "num_or None d = d"
| "num_or (Some x) d = (if num_truthy x then x else d)"

text \<open>Truthiness of a possibly undefined string: \<^verbatim>\<open>undefined\<close> and \<^verbatim>\<open>''\<close> are falsy.\<close>

fun str_truthy :: "string option \<Rightarrow> bool" where
  "str_truthy None = False"
| "str_truthy (Some s) = (s \<noteq> [])"

text \<open>\<^verbatim>\<open>x || d\<close> for a possibly undefined string \<open>x\<close> and a default \<open>d\<close>.\<close>

fun str_or :: "string option \<Rightarrow> string \<Rightarrow> string" where
  "str_or None d = d"
| "str_or (Some s) d = (if s \<noteq> [] then s else d)"

subsection \<open>The data model\<close>

text \<open>\<^verbatim>\<open>CustomizerSettings\<close> (lines 1-10).\<close>

record CustomizerSettings =
  default_text :: "string option"
  text_color :: "string option"
  font_size :: "jsnum option"
  font_family :: "string option"
  text_pos_x_percent :: "jsnum option"
  text_pos_y_percent :: "jsnum option"
  image_max_width :: "jsnum option"

text \<open>\<^verbatim>\<open>CustomizerInstanceConfig\<close> (lines 12-17).\<close>

record CustomizerInstanceConfig =
  config_settings :: CustomizerSettings
  config_imageUrl :: "string option"
  config_productId :: "string option"

text \<open>
  The drawing state of the 2D context that the script assigns. The font
  \<^verbatim>\<open>`${size}px ${family}`\<close> is kept as the pair of its size and its family.
\<close>

record context2d =
  fillStyle :: string
  font :: "jsnum \<times> string"
  textAlign :: string
  textBaseline :: string

text \<open>
  One painted layer of the bitmap: a filled rectangle with its fill style, the base image
  scaled into a rectangle, a text with its anchor and the drawing state in force, or a
  cleared rectangle that is not the whole canvas.
\<close>

datatype draw_op =
    FillRect string jsnum jsnum jsnum jsnum
  | DrawImage jsnum jsnum jsnum jsnum
  | FillText "string option" jsnum jsnum context2d
  | ClearRect jsnum jsnum jsnum jsnum

text \<open>
  The canvas element: the properties \<^verbatim>\<open>width\<close> and \<^verbatim>\<open>height\<close>, which are unsigned
  integers, the number that \<^verbatim>\<open>parseFloat(canvas.getAttribute('width'))\<close> gives (line 141;
  NaN when the attribute is absent or not numeric), and the bitmap.
\<close>

record canvas_el =
  width :: nat
  height :: nat
  width_attribute :: jsnum
  bitmap :: "draw_op list"

text \<open>
  \<^verbatim>\<open>baseImage\<close>. The field \<open>pending\<close> belongs to the host: a fetch started by the
  assignment of \<^verbatim>\<open>src\<close> ends in exactly one load or error event, and \<open>pending\<close> says
  that this event is still to come.
\<close>

record image_el =
  src :: "string option"
  crossOrigin :: "string option"
  complete :: bool
  naturalWidth :: nat
  naturalHeight :: nat
  pending :: bool

text \<open>The four \<^verbatim>\<open>console.error\<close> messages (lines 29, 35, 73, 85), by their arguments.\<close>

datatype log_entry =
    ElementsNotFound string
  | NoContext2d string
  | ImageLoadFailed string "string option"
  | ImageUrlMissing string

text \<open>
  The state of one bound customizer: the variables of the closure and the objects they
  refer to. \<open>listening\<close> says that line 134 has attached \<^verbatim>\<open>handleTextInput\<close> to the
  text input.
\<close>

record customizer =
  blockId :: string
  settings :: CustomizerSettings
  imageUrl :: "string option"
  currentText :: "string option"
  baseImage :: image_el
  textInput_value :: string
  canvas :: canvas_el
  ctx :: context2d
  console :: "log_entry list"
  listening :: bool

subsection \<open>The canvas element of the host\<close>

text \<open>
  The conversion of an assigned number to the unsigned integer of \<^verbatim>\<open>canvas.width\<close> or
  \<^verbatim>\<open>canvas.height\<close>: NaN and the infinities give 0, a number from 0 on loses its
  fraction, a number between -1 and 0 gives 0, and a number from -1 down wraps beyond the
  largest value the attribute takes, so that the attribute falls back to its default
  \<open>dflt\<close> (300 for the width, 150 for the height). Sizes of \<open>2^31\<close> and more, which no
  canvas and no image has, are not wrapped.
\<close>

definition dom_unsigned :: "nat \<Rightarrow> jsnum \<Rightarrow> nat" where
  "dom_unsigned dflt v =
     (case v of
        Num x \<Rightarrow> (if x \<le> - 1 then dflt else nat \<lfloor>x\<rfloor>)
      | _ \<Rightarrow> 0)"

text \<open>The drawing state of a fresh or reset 2D context.\<close>

definition default_ctx :: context2d where
  "default_ctx =
     \<lparr>fillStyle = ''#000000'', font = (Num 10, ''sans-serif''),
      textAlign = ''start'', textBaseline = ''alphabetic''\<rparr>"

text \<open>
  \<^verbatim>\<open>canvas.width = v\<close>: the integer is stored and written to the \<^verbatim>\<open>width\<close> attribute,
  the bitmap is cleared and the drawing state reset.
\<close>

definition set_width :: "jsnum \<Rightarrow> customizer \<Rightarrow> customizer" where
  "set_width v st =
     st\<lparr>canvas := (canvas st)
           \<lparr>width := dom_unsigned 300 v,
            width_attribute := Num (real (dom_unsigned 300 v)),
            bitmap := []\<rparr>,
        ctx := default_ctx\<rparr>"

text \<open>\<^verbatim>\<open>canvas.height = v\<close>\<close>

definition set_height :: "jsnum \<Rightarrow> customizer \<Rightarrow> customizer" where
  "set_height v st =
     st\<lparr>canvas := (canvas st)\<lparr>height := dom_unsigned 150 v, bitmap := []\<rparr>,
        ctx := default_ctx\<rparr>"

text \<open>The numbers that \<^verbatim>\<open>canvas.width\<close> and \<^verbatim>\<open>canvas.height\<close> read.\<close>

definition canvas_width :: "customizer \<Rightarrow> jsnum" where
  "canvas_width st = Num (real (width (canvas st)))"

definition canvas_height :: "customizer \<Rightarrow> jsnum" where
  "canvas_height st = Num (real (height (canvas st)))"

subsection \<open>The drawing calls\<close>

text \<open>
  \<^verbatim>\<open>ctx.clearRect(x, y, w, h)\<close>: clearing the whole canvas empties the bitmap. The script
  only ever clears the rectangle \<^verbatim>\<open>(0, 0, canvas.width, canvas.height)\<close>.
\<close>

definition clearRect :: "jsnum \<Rightarrow> jsnum \<Rightarrow> jsnum \<Rightarrow> jsnum \<Rightarrow> customizer \<Rightarrow> customizer" where
  "clearRect x y w h st =
     (if x = Num 0 \<and> y = Num 0 \<and> w = canvas_width st \<and> h = canvas_height st
      then st\<lparr>canvas := (canvas st)\<lparr>bitmap := []\<rparr>\<rparr>
      else st\<lparr>canvas := (canvas st)\<lparr>bitmap := bitmap (canvas st) @ [ClearRect x y w h]\<rparr>\<rparr>)"

text \<open>\<^verbatim>\<open>ctx.fillRect(x, y, w, h)\<close>\<close>

definition fillRect :: "jsnum \<Rightarrow> jsnum \<Rightarrow> jsnum \<Rightarrow> jsnum \<Rightarrow> customizer \<Rightarrow> customizer" where
  "fillRect x y w h st =
     st\<lparr>canvas := (canvas st)
          \<lparr>bitmap := bitmap (canvas st) @ [FillRect (fillStyle (ctx st)) x y w h]\<rparr>\<rparr>"

text \<open>\<^verbatim>\<open>ctx.drawImage(baseImage, x, y, w, h)\<close>\<close>

definition drawImage :: "jsnum \<Rightarrow> jsnum \<Rightarrow> jsnum \<Rightarrow> jsnum \<Rightarrow> customizer \<Rightarrow> customizer" where
  "drawImage x y w h st =
     st\<lparr>canvas := (canvas st)\<lparr>bitmap := bitmap (canvas st) @ [DrawImage x y w h]\<rparr>\<rparr>"

text \<open>\<^verbatim>\<open>ctx.fillText(text, x, y)\<close>\<close>

definition fillText :: "string option \<Rightarrow> jsnum \<Rightarrow> jsnum \<Rightarrow> customizer \<Rightarrow> customizer" where
  "fillText t x y st =
     st\<lparr>canvas := (canvas st)\<lparr>bitmap := bitmap (canvas st) @ [FillText t x y (ctx st)]\<rparr>\<rparr>"

subsection \<open>The renderer\<close>

text \<open>\<^verbatim>\<open>redrawCanvas\<close> (lines 99-122).\<close>

definition redrawCanvas :: "(real \<Rightarrow> jsnum) \<Rightarrow> customizer \<Rightarrow> customizer" where
  "redrawCanvas rnd st =
     (if \<not> complete (baseImage st) \<or> naturalWidth (baseImage st) = 0 then st
      else
        let st1 = clearRect (Num 0) (Num 0) (canvas_width st) (canvas_height st) st;
            st2 = drawImage (Num 0) (Num 0) (canvas_width st1) (canvas_height st1) st1;
            st3 = st2\<lparr>ctx := (ctx st2)
                    \<lparr>fillStyle := str_or (text_color (settings st2)) ''#000000''\<rparr>\<rparr>;
            st4 = st3\<lparr>ctx := (ctx st3)
                    \<lparr>font := (num_or (font_size (settings st3)) (Num 30),
                              str_or (font_family (settings st3)) ''Arial'')\<rparr>\<rparr>;
            st5 = st4\<lparr>ctx := (ctx st4)\<lparr>textAlign := ''center''\<rparr>\<rparr>;
            st6 = st5\<lparr>ctx := (ctx st5)\<lparr>textBaseline := ''middle''\<rparr>\<rparr>;
            textX = jdiv rnd (jmul rnd (canvas_width st6)
                      (num_or (text_pos_x_percent (settings st6)) (Num 50))) (Num 100);
            textY = jdiv rnd (jmul rnd (canvas_height st6)
                      (num_or (text_pos_y_percent (settings st6)) (Num 50))) (Num 100)
        in fillText (currentText st6) textX textY st6)"

subsection \<open>The image handlers\<close>

text \<open>
  \<^verbatim>\<open>baseImage.onload\<close> (lines 47-67). Line 57 multiplies the local \<^verbatim>\<open>canvasWidth\<close>, not
  the width read back from the canvas. Line 61 assigns the default text to the input only
  when it is truthy, so \<open>str_or\<close> with an empty default returns that text itself.
\<close>

definition onload :: "(real \<Rightarrow> jsnum) \<Rightarrow> customizer \<Rightarrow> customizer" where
  "onload rnd st =
     (let imageAspectRatio =
            jdiv rnd (Num (real (naturalHeight (baseImage st))))
                     (Num (real (naturalWidth (baseImage st))));
          canvasWidth0 = canvas_width st;
          canvasWidth =
            (if image_max_width (settings st) = Some (Num 0)
                \<or> jgt canvasWidth0 (Num (real (naturalWidth (baseImage st))))
             then Num (real (naturalWidth (baseImage st)))
             else canvasWidth0);
          st1 = set_width canvasWidth st;
          st2 = set_height (jmul rnd canvasWidth imageAspectRatio) st1;
          st3 =
            (if textInput_value st2 = [] \<and> str_truthy (default_text (settings st2))
             then st2\<lparr>textInput_value := str_or (default_text (settings st2)) [],
                      currentText := default_text (settings st2)\<rparr>
             else st2\<lparr>currentText := Some (textInput_value st2)\<rparr>)
      in redrawCanvas rnd st3)"

text \<open>The message of line 78, 18 bytes of UTF-8 for six Chinese characters.\<close>

definition msg_image_load_failed :: string where
  "msg_image_load_failed =
     [CHR 0xE5, CHR 0x9B, CHR 0xBE, CHR 0xE7, CHR 0x89, CHR 0x87,
      CHR 0xE5, CHR 0x8A, CHR 0xA0, CHR 0xE8, CHR 0xBD, CHR 0xBD,
      CHR 0xE5, CHR 0xA4, CHR 0xB1, CHR 0xE8, CHR 0xB4, CHR 0xA5]"

text \<open>The message of line 91: five Chinese characters followed by \<^verbatim>\<open>URL\<close>.\<close>

definition msg_image_url_not_found :: string where
  "msg_image_url_not_found =
     [CHR 0xE6, CHR 0x9C, CHR 0xAA, CHR 0xE6, CHR 0x89, CHR 0xBE,
      CHR 0xE5, CHR 0x88, CHR 0xB0, CHR 0xE5, CHR 0x9B, CHR 0xBE,
      CHR 0xE7, CHR 0x89, CHR 0x87] @ ''URL''"

text \<open>\<^verbatim>\<open>baseImage.onerror\<close> (lines 72-79).\<close>

definition onerror :: "(real \<Rightarrow> jsnum) \<Rightarrow> customizer \<Rightarrow> customizer" where
  "onerror rnd st =
     (let st1 = st\<lparr>console := console st @ [ImageLoadFailed (blockId st) (imageUrl st)]\<rparr>;
          st2 = st1\<lparr>ctx := (ctx st1)\<lparr>fillStyle := ''#cccccc''\<rparr>\<rparr>;
          st3 = fillRect (Num 0) (Num 0) (canvas_width st2) (canvas_height st2) st2;
          st4 = st3\<lparr>ctx := (ctx st3)\<lparr>fillStyle := ''#000000''\<rparr>\<rparr>;
          st5 = st4\<lparr>ctx := (ctx st4)\<lparr>textAlign := ''center''\<rparr>\<rparr>
      in fillText (Some msg_image_load_failed)
           (jdiv rnd (canvas_width st5) (Num 2)) (jdiv rnd (canvas_height st5) (Num 2)) st5)"

text \<open>
  The body of the branch for an image that is already complete when the handlers are bound
  (lines 140-154); its guard (line 138) is in \<open>initializeProductCustomizer\<close>.
\<close>

definition already_complete_branch :: "(real \<Rightarrow> jsnum) \<Rightarrow> customizer \<Rightarrow> customizer" where
  "already_complete_branch rnd st =
     (let imageAspectRatio =
            jdiv rnd (Num (real (naturalHeight (baseImage st))))
                     (Num (real (naturalWidth (baseImage st))));
          canvasWidth0 = width_attribute (canvas st);
          canvasWidth =
            (if image_max_width (settings st) = Some (Num 0)
                \<or> jgt canvasWidth0 (Num (real (naturalWidth (baseImage st))))
             then Num (real (naturalWidth (baseImage st)))
             else canvasWidth0);
          st1 = set_width canvasWidth st;
          st2 = set_height (jmul rnd canvasWidth imageAspectRatio) st1;
          st3 =
            (if textInput_value st2 = [] \<and> str_truthy (default_text (settings st2))
             then st2\<lparr>textInput_value := str_or (default_text (settings st2)) [],
                      currentText := default_text (settings st2)\<rparr>
             else st2\<lparr>currentText := Some (textInput_value st2)\<rparr>)
      in redrawCanvas rnd st3)"

subsection \<open>The input handler\<close>

text \<open>\<^verbatim>\<open>handleTextInput\<close> (lines 128-131); \<open>v\<close> is \<^verbatim>\<open>event.target.value\<close>.\<close>

definition handleTextInput :: "(real \<Rightarrow> jsnum) \<Rightarrow> string \<Rightarrow> customizer \<Rightarrow> customizer" where
  "handleTextInput rnd v st = redrawCanvas rnd (st\<lparr>currentText := Some v\<rparr>)"

subsection \<open>The initializer\<close>

text \<open>
  What the initializer finds in the page: the canvas (\<open>None\<close> when
  \<^verbatim>\<open>getElementById\<close> returns null), the value of the text input (\<open>None\<close> when the
  element is missing), the drawing state of the 2D context (\<open>None\<close> when
  \<^verbatim>\<open>getContext('2d')\<close> returns null), and the natural size of the image when the host
  has it complete as soon as \<^verbatim>\<open>src\<close> is assigned (\<open>None\<close> when it is still to be
  fetched).
\<close>

record page =
  page_canvas :: "canvas_el option"
  page_textInput :: "string option"
  page_ctx :: "context2d option"
  page_cached_image :: "(nat \<times> nat) option"

text \<open>\<^verbatim>\<open>new Image()\<close>: no source, nothing to wait for, no size.\<close>

definition new_Image :: image_el where
  "new_Image =
     \<lparr>src = None, crossOrigin = None, complete = True,
      naturalWidth = 0, naturalHeight = 0, pending = False\<rparr>"

text \<open>
  The host's part of \<^verbatim>\<open>baseImage.src = imageUrl\<close>: the fetch starts, and the image is
  complete at once only when the host has it already.
\<close>

definition start_load :: "string option \<Rightarrow> (nat \<times> nat) option \<Rightarrow> image_el \<Rightarrow> image_el" where
  "start_load url cached img =
     (case cached of
        None \<Rightarrow> img\<lparr>src := url, complete := False, naturalWidth := 0, naturalHeight := 0,
                    pending := True\<rparr>
      | Some (w, h) \<Rightarrow> img\<lparr>src := url, complete := True, naturalWidth := w,
                    naturalHeight := h, pending := True\<rparr>)"

text \<open>
  How a call of the initializer ends: before any state exists (lines 30 and 36, with the
  message logged), at line 92 with the placeholder painted, or at the end of the function
  with the handlers bound.
\<close>

datatype init_result =
    Aborted log_entry
  | NoImage customizer
  | Bound customizer

text \<open>\<^verbatim>\<open>initializeProductCustomizer\<close> (lines 24-156).\<close>

definition initializeProductCustomizer ::
    "(real \<Rightarrow> jsnum) \<Rightarrow> string \<Rightarrow> CustomizerInstanceConfig \<Rightarrow> page \<Rightarrow> init_result" where
  "initializeProductCustomizer rnd bid config pg =
     (case (page_canvas pg, page_textInput pg) of
        (Some cv, Some tv) \<Rightarrow>
          (case page_ctx pg of
             None \<Rightarrow> Aborted (NoContext2d bid)
           | Some cx \<Rightarrow>
               let st0 = \<lparr>blockId = bid,
                          settings = config_settings config,
                          imageUrl = config_imageUrl config,
                          currentText =
                            (if tv \<noteq> [] then Some tv
                             else default_text (config_settings config)),
                          baseImage = new_Image\<lparr>crossOrigin := Some ''anonymous''\<rparr>,
                          textInput_value = tv,
                          canvas = cv,
                          ctx = cx,
                          console = [],
                          listening = False\<rparr>
               in if str_truthy (imageUrl st0) then
                    let st1 = st0\<lparr>baseImage :=
                                start_load (imageUrl st0) (page_cached_image pg) (baseImage st0)\<rparr>;
                        st2 = st1\<lparr>listening := True\<rparr>
                    in Bound
                         (if complete (baseImage st2) \<and> 0 < naturalWidth (baseImage st2)
                          then already_complete_branch rnd st2 else st2)
                  else
                    let st1 = st0\<lparr>console := console st0 @ [ImageUrlMissing bid]\<rparr>;
                        st2 = st1\<lparr>ctx := (ctx st1)\<lparr>fillStyle := ''#cccccc''\<rparr>\<rparr>;
                        st3 = fillRect (Num 0) (Num 0) (canvas_width st2) (canvas_height st2) st2;
                        st4 = st3\<lparr>ctx := (ctx st3)\<lparr>fillStyle := ''#000000''\<rparr>\<rparr>;
                        st5 = st4\<lparr>ctx := (ctx st4)\<lparr>textAlign := ''center''\<rparr>\<rparr>
                    in NoImage
                         (fillText (Some msg_image_url_not_found)
                            (jdiv rnd (canvas_width st5) (Num 2))
                            (jdiv rnd (canvas_height st5) (Num 2)) st5))
      | _ \<Rightarrow> Aborted (ElementsNotFound bid))"

subsection \<open>Events\<close>

text \<open>
  The events the host delivers to a customizer after its initializer has returned: the
  image has loaded with a natural size, the image has failed, the user has changed the text
  input to a value. The host delivers a load or an error only while the fetch is pending,
  and records the outcome in the image before it calls the handler: a loaded image is
  complete with its size, a failed one is complete with no size. An input event reaches
  \<open>handleTextInput\<close> only when line 134 has attached it.
\<close>

datatype event = LoadEvent nat nat | ErrorEvent | InputEvent string

fun dispatch :: "(real \<Rightarrow> jsnum) \<Rightarrow> event \<Rightarrow> customizer \<Rightarrow> customizer" where
  "dispatch rnd (LoadEvent w h) st =
     (if pending (baseImage st)
      then onload rnd (st\<lparr>baseImage := (baseImage st)
             \<lparr>complete := True, naturalWidth := w, naturalHeight := h, pending := False\<rparr>\<rparr>)
      else st)"
| "dispatch rnd ErrorEvent st =
     (if pending (baseImage st)
      then onerror rnd (st\<lparr>baseImage := (baseImage st)
             \<lparr>complete := True, naturalWidth := 0, naturalHeight := 0, pending := False\<rparr>\<rparr>)
      else st)"
| "dispatch rnd (InputEvent v) st =
     (if listening st then handleTextInput rnd v (st\<lparr>textInput_value := v\<rparr>)
      else st\<lparr>textInput_value := v\<rparr>)"

fun run :: "(real \<Rightarrow> jsnum) \<Rightarrow> event list \<Rightarrow> customizer \<Rightarrow> customizer" where
  "run rnd [] st = st"
| "run rnd (e # es) st = run rnd es (dispatch rnd e st)"

subsection \<open>Concrete states\<close>

text \<open>
  A block whose settings put the text at 25 and 80 percent and bound the preview at 500
  pixels, on a page whose canvas carries \<^verbatim>\<open>width="500"\<close>; the 2D context is fresh.
\<close>

definition demo_settings :: CustomizerSettings where
  "demo_settings =
     \<lparr>default_text = Some ''Your text'', text_color = Some ''#ff0000'',
      font_size = Some (Num 24), font_family = None,
      text_pos_x_percent = Some (Num 25), text_pos_y_percent = Some (Num 80),
      image_max_width = Some (Num 500)\<rparr>"

definition demo_canvas :: canvas_el where
  "demo_canvas = \<lparr>width = 500, height = 150, width_attribute = Num 500, bitmap = []\<rparr>"

definition demo_page :: page where
  "demo_page =
     \<lparr>page_canvas = Some demo_canvas, page_textInput = Some [],
      page_ctx = Some default_ctx, page_cached_image = None\<rparr>"

definition demo_config :: CustomizerInstanceConfig where
  "demo_config =
     \<lparr>config_settings = demo_settings, config_imageUrl = Some ''/p.png'',
      config_productId = Some ''42''\<rparr>"

text \<open>The customizer of that block while its image is being fetched.\<close>

definition demo_waiting :: customizer where
  "demo_waiting =
     \<lparr>blockId = ''b1'', settings = demo_settings, imageUrl = Some ''/p.png'',
      currentText = Some ''Your text'',
      baseImage = \<lparr>src = Some ''/p.png'', crossOrigin = Some ''anonymous'', complete = False,
                   naturalWidth = 0, naturalHeight = 0, pending = True\<rparr>,
      textInput_value = [], canvas = demo_canvas, ctx = default_ctx, console = [],
      listening = True\<rparr>"

text \<open>The same customizer when the host has the image, 1000 by 750 pixels, complete.\<close>

definition demo_loaded :: customizer where
  "demo_loaded =
     demo_waiting\<lparr>baseImage := (baseImage demo_waiting)
       \<lparr>complete := True, naturalWidth := 1000, naturalHeight := 750, pending := False\<rparr>\<rparr>"

text \<open>The same, with an image of 1000 by 125 pixels.\<close>

definition demo_loaded_flat :: customizer where
  "demo_loaded_flat =
     demo_waiting\<lparr>baseImage := (baseImage demo_waiting)
       \<lparr>complete := True, naturalWidth := 1000, naturalHeight := 125, pending := False\<rparr>\<rparr>"

text \<open>
  A canvas without a \<^verbatim>\<open>width\<close> attribute: the property reads the host's default of 300
  and \<^verbatim>\<open>parseFloat(null)\<close> is NaN.
\<close>

definition demo_canvas_no_width_attribute :: canvas_el where
  "demo_canvas_no_width_attribute = demo_canvas\<lparr>width := 300, width_attribute := NaN\<rparr>"

text \<open>The customizer of \<open>demo_loaded\<close> on that canvas.\<close>

definition demo_loaded_no_width_attribute :: customizer where
  "demo_loaded_no_width_attribute = demo_loaded\<lparr>canvas := demo_canvas_no_width_attribute\<rparr>"

text \<open>
  The demo page with that canvas, once with the image still to be fetched and once with the
  image of 1000 by 750 pixels complete as soon as its source is assigned.
\<close>

definition demo_page_no_width_attribute :: page where
  "demo_page_no_width_attribute = demo_page\<lparr>page_canvas := Some demo_canvas_no_width_attribute\<rparr>"

definition demo_page_no_width_attribute_cached :: page where
  "demo_page_no_width_attribute_cached =
     demo_page_no_width_attribute\<lparr>page_cached_image := Some (1000, 750)\<rparr>"

text \<open>The same as \<open>demo_loaded\<close>, with the maximum width set to zero.\<close>

definition demo_loaded_unbounded :: customizer where
  "demo_loaded_unbounded =
     demo_loaded\<lparr>settings := demo_settings\<lparr>image_max_width := Some (Num 0)\<rparr>\<rparr>"

text \<open>The same as \<open>demo_loaded\<close>, with the text placed at 0 and 0 percent.\<close>

definition demo_loaded_top_left :: customizer where
  "demo_loaded_top_left =
     demo_loaded\<lparr>settings := demo_settings
       \<lparr>text_pos_x_percent := Some (Num 0), text_pos_y_percent := Some (Num 0)\<rparr>\<rparr>"

lemmas demo_defs =
  demo_settings_def demo_canvas_def demo_page_def demo_config_def
  demo_waiting_def demo_loaded_def demo_loaded_flat_def demo_canvas_no_width_attribute_def
  demo_loaded_no_width_attribute_def demo_page_no_width_attribute_def
  demo_page_no_width_attribute_cached_def demo_loaded_unbounded_def demo_loaded_top_left_def

lemmas host_defs =
  exact_def default_ctx_def dom_unsigned_def set_width_def set_height_def
  canvas_width_def canvas_height_def

section \<open>Properties\<close>

subsection \<open>The canvas setters\<close>

text \<open>An unsigned integer assigned to a dimension is stored as it is.\<close>

lemma dom_unsigned_nat: "dom_unsigned d (Num (real n)) = n"
  by (simp add: dom_unsigned_def)

text \<open>NaN assigned to a dimension is stored as 0.\<close>

lemma dom_unsigned_NaN: "dom_unsigned d NaN = 0"
  by (simp add: dom_unsigned_def)

subsection \<open>What the renderer changes\<close>

lemma redrawCanvas_width: "width (canvas (redrawCanvas rnd st)) = width (canvas st)"
  by (simp add: redrawCanvas_def clearRect_def drawImage_def fillText_def Let_def)

lemma redrawCanvas_height: "height (canvas (redrawCanvas rnd st)) = height (canvas st)"
  by (simp add: redrawCanvas_def clearRect_def drawImage_def fillText_def Let_def)

lemma redrawCanvas_currentText: "currentText (redrawCanvas rnd st) = currentText st"
  by (simp add: redrawCanvas_def clearRect_def drawImage_def fillText_def Let_def)

lemma redrawCanvas_textInput_value:
  "textInput_value (redrawCanvas rnd st) = textInput_value st"
  by (simp add: redrawCanvas_def clearRect_def drawImage_def fillText_def Let_def)

lemma redrawCanvas_baseImage: "baseImage (redrawCanvas rnd st) = baseImage st"
  by (simp add: redrawCanvas_def clearRect_def drawImage_def fillText_def Let_def)

lemma redrawCanvas_settings: "settings (redrawCanvas rnd st) = settings st"
  by (simp add: redrawCanvas_def clearRect_def drawImage_def fillText_def Let_def)

lemma redrawCanvas_not_ready:
  "\<not> complete (baseImage st) \<or> naturalWidth (baseImage st) = 0 \<Longrightarrow> redrawCanvas rnd st = st"
  by (simp add: redrawCanvas_def)

text \<open>
  With the image ready, the renderer leaves a bitmap of two layers, the image over the whole
  canvas and the current text, and the drawing state it has assigned.
\<close>

lemma redrawCanvas_ready:
  "complete (baseImage st) \<Longrightarrow> naturalWidth (baseImage st) \<noteq> 0 \<Longrightarrow>
   redrawCanvas rnd st =
     st\<lparr>canvas := (canvas st)\<lparr>bitmap :=
            [DrawImage (Num 0) (Num 0) (canvas_width st) (canvas_height st),
             FillText (currentText st)
               (jdiv rnd (jmul rnd (canvas_width st)
                  (num_or (text_pos_x_percent (settings st)) (Num 50))) (Num 100))
               (jdiv rnd (jmul rnd (canvas_height st)
                  (num_or (text_pos_y_percent (settings st)) (Num 50))) (Num 100))
               ((ctx st)\<lparr>fillStyle := str_or (text_color (settings st)) ''#000000'',
                  font := (num_or (font_size (settings st)) (Num 30),
                           str_or (font_family (settings st)) ''Arial''),
                  textAlign := ''center'', textBaseline := ''middle''\<rparr>)]\<rparr>,
        ctx := (ctx st)\<lparr>fillStyle := str_or (text_color (settings st)) ''#000000'',
                  font := (num_or (font_size (settings st)) (Num 30),
                           str_or (font_family (settings st)) ''Arial''),
                  textAlign := ''center'', textBaseline := ''middle''\<rparr>\<rparr>"
  by (simp add: redrawCanvas_def clearRect_def drawImage_def fillText_def Let_def
      canvas_width_def canvas_height_def)

text \<open>
  The same bitmap, written with the state the renderer has left: the image over the canvas
  as it is, the current text at the anchor, in the drawing state as it is.
\<close>

lemma redrawCanvas_bitmap:
  assumes "complete (baseImage st)" and "naturalWidth (baseImage st) \<noteq> 0"
    and "s = redrawCanvas rnd st"
  shows "bitmap (canvas s) =
     [DrawImage (Num 0) (Num 0) (canvas_width s) (canvas_height s),
      FillText (currentText s)
        (jdiv rnd (jmul rnd (canvas_width s)
           (num_or (text_pos_x_percent (settings s)) (Num 50))) (Num 100))
        (jdiv rnd (jmul rnd (canvas_height s)
           (num_or (text_pos_y_percent (settings s)) (Num 50))) (Num 100))
        (ctx s)]"
  using assms by (simp add: redrawCanvas_ready canvas_width_def canvas_height_def)

text \<open>
  Where the rounding has nothing to round: for a percentage that is a finite number other
  than 0 the anchor of the text is \<^verbatim>\<open>width * x / 100\<close> and \<^verbatim>\<open>height * y / 100\<close>.
\<close>

lemma redrawCanvas_anchor:
  assumes "complete (baseImage st)" and "naturalWidth (baseImage st) \<noteq> 0"
    and "text_pos_x_percent (settings st) = Some (Num x)" and "x \<noteq> 0"
    and "text_pos_y_percent (settings st) = Some (Num y)" and "y \<noteq> 0"
  shows "\<exists>c. bitmap (canvas (redrawCanvas exact st)) =
     [DrawImage (Num 0) (Num 0) (canvas_width st) (canvas_height st),
      FillText (currentText st)
        (Num (real (width (canvas st)) * x / 100))
        (Num (real (height (canvas st)) * y / 100)) c]"
  using assms by (simp add: redrawCanvas_ready canvas_width_def canvas_height_def exact_def)

text \<open>An absent percentage is taken as 50.\<close>

lemma redrawCanvas_anchor_default:
  assumes "complete (baseImage st)" and "naturalWidth (baseImage st) \<noteq> 0"
    and "text_pos_x_percent (settings st) = None"
    and "text_pos_y_percent (settings st) = None"
  shows "\<exists>c. bitmap (canvas (redrawCanvas exact st)) =
     [DrawImage (Num 0) (Num 0) (canvas_width st) (canvas_height st),
      FillText (currentText st)
        (Num (real (width (canvas st)) * 50 / 100))
        (Num (real (height (canvas st)) * 50 / 100)) c]"
  using assms by (simp add: redrawCanvas_ready canvas_width_def canvas_height_def exact_def)

subsection \<open>Event sequences\<close>

text \<open>
  The demo customizer is the one the initializer binds on the demo page.
\<close>

lemma demo_waiting_bound:
  "initializeProductCustomizer rnd ''b1'' demo_config demo_page = Bound demo_waiting"
  by (simp add: initializeProductCustomizer_def demo_defs new_Image_def start_load_def)

text \<open>
  Once the fetch is over without a size, no event changes the image or the bitmap.
\<close>

lemma dispatch_failed:
  "\<not> pending (baseImage st) \<Longrightarrow> naturalWidth (baseImage st) = 0 \<Longrightarrow>
   \<not> pending (baseImage (dispatch rnd e st)) \<and>
   naturalWidth (baseImage (dispatch rnd e st)) = 0 \<and>
   bitmap (canvas (dispatch rnd e st)) = bitmap (canvas st)"
  by (cases e) (simp_all add: handleTextInput_def redrawCanvas_not_ready)

lemma run_failed:
  "\<not> pending (baseImage st) \<Longrightarrow> naturalWidth (baseImage st) = 0 \<Longrightarrow>
   \<not> pending (baseImage (run rnd evs st)) \<and> naturalWidth (baseImage (run rnd evs st)) = 0 \<and>
   bitmap (canvas (run rnd evs st)) = bitmap (canvas st)"
proof (induction evs arbitrary: st)
  case Nil
  then show ?case by simp
next
  case (Cons e evs)
  from dispatch_failed [OF Cons.prems, of rnd e] Cons.IH [of "dispatch rnd e st"]
  show ?case by simp
qed

text \<open>
  With no fetch pending and no listener attached, an event changes at most the value of
  the text input.
\<close>

lemma dispatch_unbound:
  "\<not> pending (baseImage st) \<Longrightarrow> \<not> listening st \<Longrightarrow>
   \<not> pending (baseImage (dispatch rnd e st)) \<and> \<not> listening (dispatch rnd e st) \<and>
   currentText (dispatch rnd e st) = currentText st \<and>
   canvas (dispatch rnd e st) = canvas st \<and>
   baseImage (dispatch rnd e st) = baseImage st"
  by (cases e) simp_all

lemma run_unbound:
  "\<not> pending (baseImage st) \<Longrightarrow> \<not> listening st \<Longrightarrow>
   currentText (run rnd evs st) = currentText st \<and> canvas (run rnd evs st) = canvas st \<and>
   baseImage (run rnd evs st) = baseImage st"
proof (induction evs arbitrary: st)
  case Nil
  then show ?case by simp
next
  case (Cons e evs)
  have d: "\<not> pending (baseImage (dispatch rnd e st)) \<and> \<not> listening (dispatch rnd e st) \<and>
     currentText (dispatch rnd e st) = currentText st \<and>
     canvas (dispatch rnd e st) = canvas st \<and>
     baseImage (dispatch rnd e st) = baseImage st"
    by (rule dispatch_unbound [OF Cons.prems])
  then have "currentText (run rnd evs (dispatch rnd e st)) = currentText (dispatch rnd e st) \<and>
     canvas (run rnd evs (dispatch rnd e st)) = canvas (dispatch rnd e st) \<and>
     baseImage (run rnd evs (dispatch rnd e st)) = baseImage (dispatch rnd e st)"
    by (intro Cons.IH) blast+
  with d show ?case by simp
qed

text \<open>
  The initializer on a page that has the canvas, the text input and the 2D context, called
  with no image URL (\<^verbatim>\<open>undefined\<close> or the empty string): it ends at line 92.
\<close>

lemma initialize_no_url:
  assumes "page_canvas pg = Some cv" and "page_textInput pg = Some tv"
    and "page_ctx pg = Some cx" and "\<not> str_truthy (config_imageUrl config)"
  shows "\<exists>st. initializeProductCustomizer rnd bid config pg = NoImage st \<and>
     console st = [ImageUrlMissing bid] \<and>
     bitmap (canvas st) =
       bitmap cv @
         [FillRect ''#cccccc'' (Num 0) (Num 0) (Num (real (width cv))) (Num (real (height cv))),
          FillText (Some msg_image_url_not_found)
            (jdiv rnd (Num (real (width cv))) (Num 2))
            (jdiv rnd (Num (real (height cv))) (Num 2))
            (cx\<lparr>fillStyle := ''#000000'', textAlign := ''center''\<rparr>)] \<and>
     baseImage st = new_Image\<lparr>crossOrigin := Some ''anonymous''\<rparr> \<and>
     \<not> listening st \<and>
     currentText st = (if tv \<noteq> [] then Some tv else default_text (config_settings config))"
  using assms
  by (simp add: initializeProductCustomizer_def Let_def fillRect_def fillText_def
      canvas_width_def canvas_height_def)

subsection \<open>The load handler\<close>

text \<open>
  The text the load handler leaves in \<^verbatim>\<open>currentText\<close> and in the input: the default
  text when the input is empty and a default text is configured, the value of the input
  otherwise.
\<close>

lemma onload_text:
  "currentText (onload rnd st) =
     (if textInput_value st = [] \<and> str_truthy (default_text (settings st))
      then default_text (settings st) else Some (textInput_value st)) \<and>
   Some (textInput_value (onload rnd st)) =
     (if textInput_value st = [] \<and> str_truthy (default_text (settings st))
      then default_text (settings st) else Some (textInput_value st))"
  by (cases "default_text (settings st)")
    (simp_all add: onload_def Let_def redrawCanvas_currentText redrawCanvas_textInput_value
      set_width_def set_height_def)

text \<open>
  What the load handler paints when the image it finds is ready: the image over the canvas
  it has resized and the text it has synchronised, at the anchor.
\<close>

lemma onload_bitmap:
  assumes "complete (baseImage st)" and "naturalWidth (baseImage st) \<noteq> 0"
    and "s = onload rnd st"
  shows "bitmap (canvas s) =
     [DrawImage (Num 0) (Num 0) (canvas_width s) (canvas_height s),
      FillText (currentText s)
        (jdiv rnd (jmul rnd (canvas_width s)
           (num_or (text_pos_x_percent (settings s)) (Num 50))) (Num 100))
        (jdiv rnd (jmul rnd (canvas_height s)
           (num_or (text_pos_y_percent (settings s)) (Num 50))) (Num 100))
        (ctx s)]"
  using assms
  by (simp add: onload_def Let_def redrawCanvas_ready set_width_def set_height_def
      canvas_width_def canvas_height_def)

text \<open>
  When the image it finds has natural width 0 the load handler draws nothing, and the
  resizing has cleared the bitmap.
\<close>

lemma onload_not_ready_bitmap:
  "naturalWidth (baseImage st) = 0 \<Longrightarrow> bitmap (canvas (onload rnd st)) = []"
  by (simp add: onload_def Let_def redrawCanvas_not_ready set_width_def set_height_def)

text \<open>
  Where \<^verbatim>\<open>parseFloat(canvas.getAttribute('width'))\<close> is the number that
  \<^verbatim>\<open>canvas.width\<close> reads, the branch for an image that is already complete does what
  the load handler does.
\<close>

lemma already_complete_branch_onload:
  "width_attribute (canvas st) = canvas_width st \<Longrightarrow>
   already_complete_branch rnd st = onload rnd st"
  by (simp add: already_complete_branch_def onload_def)

section \<open>The claims\<close>

text \<open>
  The concrete evaluations below take \<open>exact\<close> for the rounding: on the demo states every
  product and quotient of the script is a number that a double holds exactly (such as
  \<open>750 / 1000 = 0.75\<close>, \<open>500 * 0.75 = 375\<close>, \<open>500 * 25 = 12500\<close>, \<open>12500 / 100 = 125\<close>),
  so that the script computes these very numbers.
\<close>

subsection \<open>Sizing the canvas on load\<close>

text \<open>
  Claim C1 says that with a positive \<^verbatim>\<open>image_max_width\<close> below the natural width the
  load handler leaves the canvas as wide as \<^verbatim>\<open>image_max_width\<close> and as high as the
  width times \<^verbatim>\<open>naturalHeight / naturalWidth\<close>. The handler never reads the maximum but
  to compare it with zero (line 53): the bound it applies is the width the canvas has
  already (line 50). And the height of a canvas is an integer. Counterexample to C1 as
  stated, at two inputs with the maximum 500 and an image 1000 wide: a canvas 300 wide stays
  300 wide; and on a canvas 500 wide, with the image 125 high, the product is 62.5 and the
  canvas becomes 62 high.
\<close>

theorem onload_width_ignores_image_max_width:
  "image_max_width (settings demo_loaded_no_width_attribute) = Some (Num 500) \<and>
   500 < naturalWidth (baseImage demo_loaded_no_width_attribute) \<and>
   width (canvas (onload exact demo_loaded_no_width_attribute)) = 300 \<and>
   image_max_width (settings demo_loaded_flat) = Some (Num 500) \<and>
   canvas_width demo_loaded_flat = Num 500 \<and>
   jmul exact (Num 500)
     (jdiv exact (Num (real (naturalHeight (baseImage demo_loaded_flat))))
                 (Num (real (naturalWidth (baseImage demo_loaded_flat))))) = Num 62.5 \<and>
   width (canvas (onload exact demo_loaded_flat)) = 500 \<and>
   height (canvas (onload exact demo_loaded_flat)) = 62"
  by (simp add: demo_defs host_defs onload_def Let_def redrawCanvas_width redrawCanvas_height)

text \<open>
  Claim C1, amended: when \<^verbatim>\<open>image_max_width\<close> is positive, the natural width exceeds it
  and the canvas is \<^verbatim>\<open>image_max_width\<close> wide before the load handler runs (the template
  is expected to render the canvas so), then after the handler the canvas width is
  \<^verbatim>\<open>image_max_width\<close>, and the canvas height is the integer that the canvas makes of
  the width times \<^verbatim>\<open>naturalHeight / naturalWidth\<close>, quotient and product each rounded
  to a double: its integer part.
\<close>

theorem onload_width_bounded_by_canvas_width:
  assumes "image_max_width (settings st) = Some (Num m)" and "0 < m"
    and "m < real (naturalWidth (baseImage st))" and "canvas_width st = Num m"
  shows "canvas_width (onload rnd st) = Num m \<and>
         height (canvas (onload rnd st)) =
           dom_unsigned 150
             (jmul rnd (Num m)
                (jdiv rnd (Num (real (naturalHeight (baseImage st))))
                          (Num (real (naturalWidth (baseImage st))))))"
proof -
  from assms(4) have m: "m = real (width (canvas st))"
    by (simp add: canvas_width_def)
  from assms(1,2,3) have
    "width (canvas (onload rnd st)) = width (canvas st)"
    "height (canvas (onload rnd st)) =
       dom_unsigned 150
         (jmul rnd (Num m)
            (jdiv rnd (Num (real (naturalHeight (baseImage st))))
                      (Num (real (naturalWidth (baseImage st))))))"
    unfolding m
    by (simp_all add: onload_def Let_def redrawCanvas_width redrawCanvas_height
        set_width_def set_height_def canvas_width_def dom_unsigned_nat)
  then show ?thesis by (simp add: canvas_width_def m)
qed

text \<open>
  The amended C1 at the demo customizer: maximum 500, image 1000 by 750, canvas 500 wide;
  the canvas becomes 500 by 375.
\<close>

theorem onload_width_bounded_by_canvas_width_witness:
  "canvas_width (onload exact demo_loaded) = Num 500 \<and>
   height (canvas (onload exact demo_loaded)) = 375"
  using onload_width_bounded_by_canvas_width [of demo_loaded 500 exact]
  by (simp add: demo_defs host_defs)

text \<open>
  Claim C3: when \<^verbatim>\<open>image_max_width\<close> is 0, the canvas width after the load handler is the
  natural width of the image, whatever width the canvas had before.
\<close>

theorem onload_zero_max_width_natural_width:
  "image_max_width (settings st) = Some (Num 0) \<Longrightarrow>
   canvas_width (onload rnd st) = Num (real (naturalWidth (baseImage st)))"
  by (simp add: onload_def Let_def redrawCanvas_width set_width_def set_height_def
      canvas_width_def dom_unsigned_nat)

text \<open>
  C3 at the demo customizer with the maximum set to 0: the canvas, 500 wide before, becomes
  1000 wide.
\<close>

theorem onload_zero_max_width_natural_width_witness:
  "canvas_width (onload exact demo_loaded_unbounded) = Num 1000"
  using onload_zero_max_width_natural_width [of demo_loaded_unbounded exact]
  by (simp add: demo_defs)

subsection \<open>The renderer\<close>

text \<open>
  Claim C2 says that the text anchor is
  \<^verbatim>\<open>(width * x_percent / 100, height * y_percent / 100)\<close> for every percentage from 0 to 100,
  the default of 50 applying only to an absent setting. Lines 118 and 119 take the default
  with \<^verbatim>\<open>||\<close>, which also replaces a percentage of 0. The renderer evaluated at the
  demo customizer with both percentages 0, on its canvas of 500 by 150: the text is anchored
  at (250, 75), the centre, where the claim puts it at (0, 0).
\<close>

theorem redrawCanvas_zero_percent_is_centred:
  "text_pos_x_percent (settings demo_loaded_top_left) = Some (Num 0) \<and>
   text_pos_y_percent (settings demo_loaded_top_left) = Some (Num 0) \<and>
   bitmap (canvas (redrawCanvas exact demo_loaded_top_left)) =
     [DrawImage (Num 0) (Num 0) (Num 500) (Num 150),
      FillText (Some ''Your text'') (Num 250) (Num 75)
        \<lparr>fillStyle = ''#ff0000'', font = (Num 24, ''Arial''),
         textAlign = ''center'', textBaseline = ''middle''\<rparr>]"
  by (simp add: demo_defs host_defs redrawCanvas_ready)

text \<open>
  A consequence of that evaluation: the last layer painted is a text whose anchor has
  neither coordinate 0.
\<close>

theorem redrawCanvas_zero_percent_is_centred_witness:
  "\<exists>t x y c. last (bitmap (canvas (redrawCanvas exact demo_loaded_top_left))) = FillText t x y c \<and>
     x \<noteq> Num 0 \<and> y \<noteq> Num 0"
  using redrawCanvas_zero_percent_is_centred by simp

text \<open>
  Claim C4: the renderer is idempotent. Called a second time on the state the first call
  left, it leaves the same state: the same bitmap and the same drawing state.
\<close>

theorem redrawCanvas_idempotent: "redrawCanvas rnd (redrawCanvas rnd st) = redrawCanvas rnd st"
proof (cases "complete (baseImage st) \<and> naturalWidth (baseImage st) \<noteq> 0")
  case True
  then show ?thesis by (simp add: redrawCanvas_ready canvas_width_def canvas_height_def)
next
  case False
  then show ?thesis by (simp add: redrawCanvas_not_ready)
qed

text \<open>
  C4 at the demo customizer with its image loaded: after two calls the bitmap is the image
  and the text, once each.
\<close>

theorem redrawCanvas_idempotent_witness:
  "redrawCanvas exact (redrawCanvas exact demo_loaded) = redrawCanvas exact demo_loaded \<and>
   bitmap (canvas (redrawCanvas exact (redrawCanvas exact demo_loaded))) =
     [DrawImage (Num 0) (Num 0) (Num 500) (Num 150),
      FillText (Some ''Your text'') (Num 125) (Num 120)
        \<lparr>fillStyle = ''#ff0000'', font = (Num 24, ''Arial''),
         textAlign = ''center'', textBaseline = ''middle''\<rparr>]"
proof -
  have "bitmap (canvas (redrawCanvas exact demo_loaded)) =
     [DrawImage (Num 0) (Num 0) (Num 500) (Num 150),
      FillText (Some ''Your text'') (Num 125) (Num 120)
        \<lparr>fillStyle = ''#ff0000'', font = (Num 24, ''Arial''),
         textAlign = ''center'', textBaseline = ''middle''\<rparr>]"
    by (simp add: demo_defs host_defs redrawCanvas_ready)
  with redrawCanvas_idempotent [of exact demo_loaded] show ?thesis by simp
qed

text \<open>
  Claim C6: while the image is not complete or has natural width 0, a call of the renderer
  changes nothing; an error event leaves the image without a pending fetch and without a
  size; and from such a state no sequence of events changes the bitmap or gives the image a
  size, so that every later call of the renderer changes nothing either.
\<close>

theorem redrawCanvas_guard_failure_absorbing:
  "(\<not> complete (baseImage st) \<or> naturalWidth (baseImage st) = 0 \<longrightarrow>
      redrawCanvas rnd st = st) \<and>
   (pending (baseImage st) \<longrightarrow>
      \<not> pending (baseImage (dispatch rnd ErrorEvent st)) \<and>
      naturalWidth (baseImage (dispatch rnd ErrorEvent st)) = 0) \<and>
   (\<not> pending (baseImage st) \<and> naturalWidth (baseImage st) = 0 \<longrightarrow>
      (\<forall>evs. bitmap (canvas (run rnd evs st)) = bitmap (canvas st) \<and>
             naturalWidth (baseImage (run rnd evs st)) = 0 \<and>
             redrawCanvas rnd (run rnd evs st) = run rnd evs st))"
proof -
  have a: "\<not> complete (baseImage st) \<or> naturalWidth (baseImage st) = 0 \<longrightarrow>
      redrawCanvas rnd st = st"
    by (simp add: redrawCanvas_not_ready)
  have b: "pending (baseImage st) \<longrightarrow>
      \<not> pending (baseImage (dispatch rnd ErrorEvent st)) \<and>
      naturalWidth (baseImage (dispatch rnd ErrorEvent st)) = 0"
    by (simp add: onerror_def fillRect_def fillText_def Let_def)
  have c: "\<not> pending (baseImage st) \<and> naturalWidth (baseImage st) = 0 \<longrightarrow>
      (\<forall>evs. bitmap (canvas (run rnd evs st)) = bitmap (canvas st) \<and>
             naturalWidth (baseImage (run rnd evs st)) = 0 \<and>
             redrawCanvas rnd (run rnd evs st) = run rnd evs st)"
  proof (intro impI allI)
    fix evs
    assume h: "\<not> pending (baseImage st) \<and> naturalWidth (baseImage st) = 0"
    then have r: "\<not> pending (baseImage (run rnd evs st)) \<and>
       naturalWidth (baseImage (run rnd evs st)) = 0 \<and>
       bitmap (canvas (run rnd evs st)) = bitmap (canvas st)"
      by (intro run_failed) blast+
    then have "redrawCanvas rnd (run rnd evs st) = run rnd evs st"
      by (simp add: redrawCanvas_not_ready)
    with r show "bitmap (canvas (run rnd evs st)) = bitmap (canvas st) \<and>
             naturalWidth (baseImage (run rnd evs st)) = 0 \<and>
             redrawCanvas rnd (run rnd evs st) = run rnd evs st"
      by simp
  qed
  from a b c show ?thesis by blast
qed

text \<open>
  C6 at the demo customizer: the renderer does nothing while the image is being fetched,
  and after the error event two input events and a late load event leave the bitmap as the
  error handler painted it.
\<close>

theorem redrawCanvas_guard_failure_absorbing_witness:
  "redrawCanvas exact demo_waiting = demo_waiting \<and>
   naturalWidth (baseImage (dispatch exact ErrorEvent demo_waiting)) = 0 \<and>
   bitmap (canvas (run exact [InputEvent ''Anna'', LoadEvent 1000 750, InputEvent ''Bo'']
                     (dispatch exact ErrorEvent demo_waiting))) =
     bitmap (canvas (dispatch exact ErrorEvent demo_waiting))"
proof -
  have p: "pending (baseImage demo_waiting)" "\<not> complete (baseImage demo_waiting)"
    by (simp_all add: demo_defs)
  from p redrawCanvas_guard_failure_absorbing [of demo_waiting exact]
  have f: "redrawCanvas exact demo_waiting = demo_waiting"
    "\<not> pending (baseImage (dispatch exact ErrorEvent demo_waiting))"
    "naturalWidth (baseImage (dispatch exact ErrorEvent demo_waiting)) = 0"
    by blast+
  with redrawCanvas_guard_failure_absorbing [of "dispatch exact ErrorEvent demo_waiting" exact]
  show ?thesis by blast
qed

subsection \<open>The input handler\<close>

text \<open>
  Claim C5 says that after an input event with value \<open>v\<close> the next draw call draws exactly
  \<open>v\<close>. Counterexample to C5 as stated: the image is still being fetched when the user
  empties the input. The handler stores the empty text and the renderer draws nothing
  (line 100); the load handler that follows finds the input empty and a default text
  configured, takes the default text (lines 60-62) and draws it.
\<close>

theorem input_then_load_draws_default_text:
  "currentText (run exact [InputEvent ''A'', InputEvent []] demo_waiting) = Some [] \<and>
   bitmap (canvas (run exact [InputEvent ''A'', InputEvent []] demo_waiting)) = [] \<and>
   bitmap (canvas (run exact [InputEvent ''A'', InputEvent [], LoadEvent 1000 750] demo_waiting)) =
     [DrawImage (Num 0) (Num 0) (Num 500) (Num 375),
      FillText (Some ''Your text'') (Num 125) (Num 300)
        \<lparr>fillStyle = ''#ff0000'', font = (Num 24, ''Arial''),
         textAlign = ''center'', textBaseline = ''middle''\<rparr>]"
  by (simp add: demo_defs host_defs handleTextInput_def redrawCanvas_not_ready onload_def
      redrawCanvas_ready Let_def)

text \<open>
  Claim C5, amended: for every input event with value \<open>v\<close> the handler sets the current
  text to \<open>v\<close>, the value the input holds, and calls the renderer at once. If the image is
  ready, that call draws exactly \<open>v\<close> at the anchor. If it is not, nothing is drawn and the
  state is otherwise unchanged. When the load handler follows the input event, it leaves
  the input and the current text at \<open>v\<close> and draws \<open>v\<close>, unless \<open>v\<close> is empty and a default
  text is configured: then it sets the input and the current text to the default text and
  draws that. What it draws is the image over the resized canvas and that text at the
  anchor; for an image of natural width 0 it draws nothing.
\<close>

theorem handleTextInput_sets_and_draws:
  "handleTextInput rnd v st = redrawCanvas rnd (st\<lparr>currentText := Some v\<rparr>) \<and>
   currentText (handleTextInput rnd v st) = Some v \<and>
   (listening st \<longrightarrow>
      textInput_value (dispatch rnd (InputEvent v) st) = v \<and>
      currentText (dispatch rnd (InputEvent v) st) = Some v) \<and>
   (complete (baseImage st) \<and> naturalWidth (baseImage st) \<noteq> 0 \<longrightarrow>
      bitmap (canvas (handleTextInput rnd v st)) =
         [DrawImage (Num 0) (Num 0) (canvas_width st) (canvas_height st),
          FillText (Some v)
            (jdiv rnd (jmul rnd (canvas_width st)
               (num_or (text_pos_x_percent (settings st)) (Num 50))) (Num 100))
            (jdiv rnd (jmul rnd (canvas_height st)
               (num_or (text_pos_y_percent (settings st)) (Num 50))) (Num 100))
            (ctx (handleTextInput rnd v st))]) \<and>
   (\<not> complete (baseImage st) \<or> naturalWidth (baseImage st) = 0 \<longrightarrow>
      handleTextInput rnd v st = st\<lparr>currentText := Some v\<rparr>) \<and>
   (listening st \<and> pending (baseImage st) \<longrightarrow>
      currentText (run rnd [InputEvent v, LoadEvent w h] st) =
        (if v = [] \<and> str_truthy (default_text (settings st))
         then default_text (settings st) else Some v) \<and>
      Some (textInput_value (run rnd [InputEvent v, LoadEvent w h] st)) =
        (if v = [] \<and> str_truthy (default_text (settings st))
         then default_text (settings st) else Some v) \<and>
      bitmap (canvas (run rnd [InputEvent v, LoadEvent w h] st)) =
        (if w = 0 then []
         else [DrawImage (Num 0) (Num 0)
                 (canvas_width (run rnd [InputEvent v, LoadEvent w h] st))
                 (canvas_height (run rnd [InputEvent v, LoadEvent w h] st)),
               FillText
                 (if v = [] \<and> str_truthy (default_text (settings st))
                  then default_text (settings st) else Some v)
                 (jdiv rnd (jmul rnd (canvas_width (run rnd [InputEvent v, LoadEvent w h] st))
                    (num_or (text_pos_x_percent (settings st)) (Num 50))) (Num 100))
                 (jdiv rnd (jmul rnd (canvas_height (run rnd [InputEvent v, LoadEvent w h] st))
                    (num_or (text_pos_y_percent (settings st)) (Num 50))) (Num 100))
                 (ctx (run rnd [InputEvent v, LoadEvent w h] st))]))"
proof -
  have a: "handleTextInput rnd v st = redrawCanvas rnd (st\<lparr>currentText := Some v\<rparr>)"
    by (simp add: handleTextInput_def)
  have b: "currentText (handleTextInput rnd v st) = Some v"
    by (simp add: handleTextInput_def redrawCanvas_currentText)
  have c: "listening st \<longrightarrow>
      textInput_value (dispatch rnd (InputEvent v) st) = v \<and>
      currentText (dispatch rnd (InputEvent v) st) = Some v"
    by (simp add: handleTextInput_def redrawCanvas_currentText redrawCanvas_textInput_value)
  have d: "complete (baseImage st) \<and> naturalWidth (baseImage st) \<noteq> 0 \<longrightarrow>
      bitmap (canvas (handleTextInput rnd v st)) =
         [DrawImage (Num 0) (Num 0) (canvas_width st) (canvas_height st),
          FillText (Some v)
            (jdiv rnd (jmul rnd (canvas_width st)
               (num_or (text_pos_x_percent (settings st)) (Num 50))) (Num 100))
            (jdiv rnd (jmul rnd (canvas_height st)
               (num_or (text_pos_y_percent (settings st)) (Num 50))) (Num 100))
            (ctx (handleTextInput rnd v st))]"
    by (simp add: handleTextInput_def redrawCanvas_ready canvas_width_def canvas_height_def)
  have e: "\<not> complete (baseImage st) \<or> naturalWidth (baseImage st) = 0 \<longrightarrow>
      handleTextInput rnd v st = st\<lparr>currentText := Some v\<rparr>"
    by (simp add: handleTextInput_def redrawCanvas_not_ready)
  have f: "listening st \<and> pending (baseImage st) \<longrightarrow>
      currentText (run rnd [InputEvent v, LoadEvent w h] st) =
        (if v = [] \<and> str_truthy (default_text (settings st))
         then default_text (settings st) else Some v) \<and>
      Some (textInput_value (run rnd [InputEvent v, LoadEvent w h] st)) =
        (if v = [] \<and> str_truthy (default_text (settings st))
         then default_text (settings st) else Some v) \<and>
      bitmap (canvas (run rnd [InputEvent v, LoadEvent w h] st)) =
        (if w = 0 then []
         else [DrawImage (Num 0) (Num 0)
                 (canvas_width (run rnd [InputEvent v, LoadEvent w h] st))
                 (canvas_height (run rnd [InputEvent v, LoadEvent w h] st)),
               FillText
                 (if v = [] \<and> str_truthy (default_text (settings st))
                  then default_text (settings st) else Some v)
                 (jdiv rnd (jmul rnd (canvas_width (run rnd [InputEvent v, LoadEvent w h] st))
                    (num_or (text_pos_x_percent (settings st)) (Num 50))) (Num 100))
                 (jdiv rnd (jmul rnd (canvas_height (run rnd [InputEvent v, LoadEvent w h] st))
                    (num_or (text_pos_y_percent (settings st)) (Num 50))) (Num 100))
                 (ctx (run rnd [InputEvent v, LoadEvent w h] st))])"
  proof
    assume h: "listening st \<and> pending (baseImage st)"
    define s1 where "s1 = dispatch rnd (InputEvent v) st"
    define s2 where "s2 = s1\<lparr>baseImage := (baseImage s1)
             \<lparr>complete := True, naturalWidth := w, naturalHeight := h, pending := False\<rparr>\<rparr>"
    define s where "s = run rnd [InputEvent v, LoadEvent w h] st"
    define t where "t = (if v = [] \<and> str_truthy (default_text (settings st))
         then default_text (settings st) else Some v)"
    from h have s1: "s1 = redrawCanvas rnd (st\<lparr>textInput_value := v, currentText := Some v\<rparr>)"
      by (simp add: s1_def handleTextInput_def)
    have p: "pending (baseImage s1)" "textInput_value s1 = v" "settings s1 = settings st"
      using h by (simp_all add: s1 redrawCanvas_baseImage redrawCanvas_textInput_value
          redrawCanvas_settings)
    then have r: "s = onload rnd s2"
      by (simp add: s_def s1_def s2_def)
    have c2: "complete (baseImage s2)" and n2: "naturalWidth (baseImage s2) = w"
      and t2: "textInput_value s2 = v" "settings s2 = settings st"
      using p by (simp_all add: s2_def)
    from onload_text [of rnd s2]
    have tx: "currentText s = t" "Some (textInput_value s) = t"
      unfolding r t2 t_def by blast+
    have st: "settings s = settings st"
      by (simp add: r onload_def Let_def redrawCanvas_settings set_width_def set_height_def t2)
    have bm: "bitmap (canvas s) =
        (if w = 0 then []
         else [DrawImage (Num 0) (Num 0) (canvas_width s) (canvas_height s),
               FillText t
                 (jdiv rnd (jmul rnd (canvas_width s)
                    (num_or (text_pos_x_percent (settings st)) (Num 50))) (Num 100))
                 (jdiv rnd (jmul rnd (canvas_height s)
                    (num_or (text_pos_y_percent (settings st)) (Num 50))) (Num 100))
                 (ctx s)])"
    proof (cases "w = 0")
      case True
      with onload_not_ready_bitmap [of s2 rnd] n2 r show ?thesis by simp
    next
      case False
      with n2 have "naturalWidth (baseImage s2) \<noteq> 0" by simp
      from onload_bitmap [OF c2 this r] False tx st show ?thesis by simp
    qed
    from tx bm show "currentText (run rnd [InputEvent v, LoadEvent w h] st) =
        (if v = [] \<and> str_truthy (default_text (settings st))
         then default_text (settings st) else Some v) \<and>
      Some (textInput_value (run rnd [InputEvent v, LoadEvent w h] st)) =
        (if v = [] \<and> str_truthy (default_text (settings st))
         then default_text (settings st) else Some v) \<and>
      bitmap (canvas (run rnd [InputEvent v, LoadEvent w h] st)) =
        (if w = 0 then []
         else [DrawImage (Num 0) (Num 0)
                 (canvas_width (run rnd [InputEvent v, LoadEvent w h] st))
                 (canvas_height (run rnd [InputEvent v, LoadEvent w h] st)),
               FillText
                 (if v = [] \<and> str_truthy (default_text (settings st))
                  then default_text (settings st) else Some v)
                 (jdiv rnd (jmul rnd (canvas_width (run rnd [InputEvent v, LoadEvent w h] st))
                    (num_or (text_pos_x_percent (settings st)) (Num 50))) (Num 100))
                 (jdiv rnd (jmul rnd (canvas_height (run rnd [InputEvent v, LoadEvent w h] st))
                    (num_or (text_pos_y_percent (settings st)) (Num 50))) (Num 100))
                 (ctx (run rnd [InputEvent v, LoadEvent w h] st))])"
      unfolding s_def t_def by blast
  qed
  from a b c d e f show ?thesis by blast
qed

text \<open>
  The amended C5 at the demo customizer: the value typed is drawn at (125, 120) when the
  image is loaded; when the image is still being fetched it is stored, and the load handler
  keeps it, but replaces an emptied input by the default text.
\<close>

theorem handleTextInput_sets_and_draws_witness:
  "currentText (handleTextInput exact ''Anna'' demo_loaded) = Some ''Anna'' \<and>
   bitmap (canvas (handleTextInput exact ''Anna'' demo_loaded)) =
      [DrawImage (Num 0) (Num 0) (Num 500) (Num 150),
       FillText (Some ''Anna'') (Num 125) (Num 120)
         \<lparr>fillStyle = ''#ff0000'', font = (Num 24, ''Arial''),
          textAlign = ''center'', textBaseline = ''middle''\<rparr>] \<and>
   textInput_value (dispatch exact (InputEvent ''Anna'') demo_loaded) = ''Anna'' \<and>
   handleTextInput exact ''Anna'' demo_waiting = demo_waiting\<lparr>currentText := Some ''Anna''\<rparr> \<and>
   currentText (run exact [InputEvent ''Anna'', LoadEvent 1000 750] demo_waiting) = Some ''Anna'' \<and>
   currentText (run exact [InputEvent [], LoadEvent 1000 750] demo_waiting) = Some ''Your text'' \<and>
   textInput_value (run exact [InputEvent [], LoadEvent 1000 750] demo_waiting) = ''Your text'' \<and>
   bitmap (canvas (run exact [InputEvent [], LoadEvent 0 0] demo_waiting)) = []"
proof -
  have r: "complete (baseImage demo_loaded) \<and> naturalWidth (baseImage demo_loaded) \<noteq> 0"
    and l: "listening demo_loaded"
    by (simp_all add: demo_defs)
  have w: "\<not> complete (baseImage demo_waiting)"
    "listening demo_waiting \<and> pending (baseImage demo_waiting)"
    by (simp_all add: demo_defs)
  have v: "canvas_width demo_loaded = Num 500" "canvas_height demo_loaded = Num 150"
    "jdiv exact (jmul exact (Num 500)
       (num_or (text_pos_x_percent (settings demo_loaded)) (Num 50))) (Num 100) = Num 125"
    "jdiv exact (jmul exact (Num 150)
       (num_or (text_pos_y_percent (settings demo_loaded)) (Num 50))) (Num 100) = Num 120"
    by (simp_all add: demo_defs host_defs)
  have x: "ctx (handleTextInput exact ''Anna'' demo_loaded) =
     \<lparr>fillStyle = ''#ff0000'', font = (Num 24, ''Arial''),
      textAlign = ''center'', textBaseline = ''middle''\<rparr>"
    by (simp add: handleTextInput_def redrawCanvas_ready demo_defs host_defs)
  have n: "(if ''Anna'' = [] \<and> str_truthy (default_text (settings demo_waiting))
            then default_text (settings demo_waiting) else Some ''Anna'') = Some ''Anna''"
    "(if [] = ([]::string) \<and> str_truthy (default_text (settings demo_waiting))
            then default_text (settings demo_waiting) else Some []) = Some ''Your text''"
    by (simp_all add: demo_defs)
  from r l handleTextInput_sets_and_draws [of exact "''Anna''" demo_loaded]
  have 1: "currentText (handleTextInput exact ''Anna'' demo_loaded) = Some ''Anna''"
    "bitmap (canvas (handleTextInput exact ''Anna'' demo_loaded)) =
      [DrawImage (Num 0) (Num 0) (Num 500) (Num 150),
       FillText (Some ''Anna'') (Num 125) (Num 120)
         \<lparr>fillStyle = ''#ff0000'', font = (Num 24, ''Arial''),
          textAlign = ''center'', textBaseline = ''middle''\<rparr>]"
    "textInput_value (dispatch exact (InputEvent ''Anna'') demo_loaded) = ''Anna''"
    unfolding v x by blast+
  from w handleTextInput_sets_and_draws [of exact "''Anna''" demo_waiting 1000 750]
  have 2: "handleTextInput exact ''Anna'' demo_waiting = demo_waiting\<lparr>currentText := Some ''Anna''\<rparr>"
    "currentText (run exact [InputEvent ''Anna'', LoadEvent 1000 750] demo_waiting) = Some ''Anna''"
    unfolding n by blast+
  from w handleTextInput_sets_and_draws [of exact "[]" demo_waiting 1000 750]
  have 3: "currentText (run exact [InputEvent [], LoadEvent 1000 750] demo_waiting) = Some ''Your text''"
    "Some (textInput_value (run exact [InputEvent [], LoadEvent 1000 750] demo_waiting)) = Some ''Your text''"
    unfolding n by blast+
  from w handleTextInput_sets_and_draws [of exact "[]" demo_waiting 0 0]
  have 4: "bitmap (canvas (run exact [InputEvent [], LoadEvent 0 0] demo_waiting)) = []"
    by simp
  from 1 2 3 4 show ?thesis by simp
qed

subsection \<open>Failures\<close>

text \<open>
  Claim C7: the error handler fills the rectangle of the whole canvas with
  \<^verbatim>\<open>#cccccc\<close> and draws the message of line 78, aligned to the centre, at half the
  canvas width and half the canvas height; it logs the failure.
\<close>

theorem onerror_paints_placeholder:
  "bitmap (canvas (onerror rnd st)) =
     bitmap (canvas st) @
       [FillRect ''#cccccc'' (Num 0) (Num 0) (canvas_width st) (canvas_height st),
        FillText (Some msg_image_load_failed)
          (jdiv rnd (canvas_width st) (Num 2)) (jdiv rnd (canvas_height st) (Num 2))
          ((ctx st)\<lparr>fillStyle := ''#000000'', textAlign := ''center''\<rparr>)] \<and>
   console (onerror rnd st) = console st @ [ImageLoadFailed (blockId st) (imageUrl st)]"
  by (simp add: onerror_def fillRect_def fillText_def Let_def canvas_width_def canvas_height_def)

text \<open>
  C7 at the demo customizer when its image fails: on the canvas of 500 by 150 the message
  is anchored at (250, 75).
\<close>

theorem onerror_paints_placeholder_witness:
  "bitmap (canvas (dispatch exact ErrorEvent demo_waiting)) =
     [FillRect ''#cccccc'' (Num 0) (Num 0) (Num 500) (Num 150),
      FillText (Some msg_image_load_failed) (Num 250) (Num 75)
        \<lparr>fillStyle = ''#000000'', font = (Num 10, ''sans-serif''),
         textAlign = ''center'', textBaseline = ''alphabetic''\<rparr>]"
  using onerror_paints_placeholder
    [of exact "demo_waiting\<lparr>baseImage := (baseImage demo_waiting)
           \<lparr>complete := True, naturalWidth := 0, naturalHeight := 0, pending := False\<rparr>\<rparr>"]
  by (simp add: demo_defs host_defs)

text \<open>
  Claim C8: on a page that has the canvas, the text input and the 2D context, the
  initializer called without an image URL logs the error of line 85, paints the gray
  rectangle and the message of line 91, and returns with the image source never assigned
  and no fetch pending; no later event assigns a source or paints anything.
\<close>

theorem initialize_without_image_url:
  assumes "page_canvas pg = Some cv" and "page_textInput pg = Some tv"
    and "page_ctx pg = Some cx" and "\<not> str_truthy (config_imageUrl config)"
  shows "\<exists>st. initializeProductCustomizer rnd bid config pg = NoImage st \<and>
     console st = [ImageUrlMissing bid] \<and>
     bitmap (canvas st) =
       bitmap cv @
         [FillRect ''#cccccc'' (Num 0) (Num 0) (Num (real (width cv))) (Num (real (height cv))),
          FillText (Some msg_image_url_not_found)
            (jdiv rnd (Num (real (width cv))) (Num 2))
            (jdiv rnd (Num (real (height cv))) (Num 2))
            (cx\<lparr>fillStyle := ''#000000'', textAlign := ''center''\<rparr>)] \<and>
     src (baseImage st) = None \<and> \<not> pending (baseImage st) \<and>
     (\<forall>evs. src (baseImage (run rnd evs st)) = None \<and>
            bitmap (canvas (run rnd evs st)) = bitmap (canvas st))"
proof -
  from initialize_no_url [OF assms, of rnd bid] obtain st where
    i: "initializeProductCustomizer rnd bid config pg = NoImage st"
    and c: "console st = [ImageUrlMissing bid]"
    and b: "bitmap (canvas st) =
       bitmap cv @
         [FillRect ''#cccccc'' (Num 0) (Num 0) (Num (real (width cv))) (Num (real (height cv))),
          FillText (Some msg_image_url_not_found)
            (jdiv rnd (Num (real (width cv))) (Num 2))
            (jdiv rnd (Num (real (height cv))) (Num 2))
            (cx\<lparr>fillStyle := ''#000000'', textAlign := ''center''\<rparr>)]"
    and img: "baseImage st = new_Image\<lparr>crossOrigin := Some ''anonymous''\<rparr>"
    and l: "\<not> listening st"
    by blast
  from img have s: "src (baseImage st) = None" and p: "\<not> pending (baseImage st)"
    by (simp_all add: new_Image_def)
  have "src (baseImage (run rnd evs st)) = None \<and>
        bitmap (canvas (run rnd evs st)) = bitmap (canvas st)" for evs
    using run_unbound [OF p l, of rnd evs] s by simp
  with i c b s p show ?thesis by blast
qed

text \<open>
  C8 on the demo page with an empty image URL.
\<close>

theorem initialize_without_image_url_witness:
  "\<exists>st. initializeProductCustomizer exact ''b1''
           (demo_config\<lparr>config_imageUrl := Some []\<rparr>) demo_page = NoImage st \<and>
     console st = [ImageUrlMissing ''b1''] \<and>
     bitmap (canvas st) =
       [FillRect ''#cccccc'' (Num 0) (Num 0) (Num 500) (Num 150),
        FillText (Some msg_image_url_not_found) (Num 250) (Num 75)
          \<lparr>fillStyle = ''#000000'', font = (Num 10, ''sans-serif''),
           textAlign = ''center'', textBaseline = ''alphabetic''\<rparr>] \<and>
     src (baseImage st) = None \<and>
     bitmap (canvas (run exact [InputEvent ''Anna'', LoadEvent 10 10] st)) = bitmap (canvas st)"
proof -
  have h: "page_canvas demo_page = Some demo_canvas" "page_textInput demo_page = Some []"
    "page_ctx demo_page = Some default_ctx"
    "\<not> str_truthy (config_imageUrl (demo_config\<lparr>config_imageUrl := Some []\<rparr>))"
    by (simp_all add: demo_page_def)
  have v: "bitmap demo_canvas = []" "real (width demo_canvas) = 500"
    "real (height demo_canvas) = 150"
    "jdiv exact (Num 500) (Num 2) = Num 250" "jdiv exact (Num 150) (Num 2) = Num 75"
    "default_ctx\<lparr>fillStyle := ''#000000'', textAlign := ''center''\<rparr> =
       \<lparr>fillStyle = ''#000000'', font = (Num 10, ''sans-serif''),
        textAlign = ''center'', textBaseline = ''alphabetic''\<rparr>"
    by (simp_all add: demo_canvas_def default_ctx_def exact_def)
  from initialize_without_image_url [OF h, of exact "''b1''"]
  show ?thesis unfolding v append_Nil by blast
qed

text \<open>
  Claim C10: the initializer called without an image URL returns before line 134 attaches
  the input listener, so that no later event changes the current text or the bitmap.
\<close>

theorem no_image_url_input_events_ignored:
  assumes "page_canvas pg = Some cv" and "page_textInput pg = Some tv"
    and "page_ctx pg = Some cx" and "\<not> str_truthy (config_imageUrl config)"
  shows "\<exists>st. initializeProductCustomizer rnd bid config pg = NoImage st \<and>
     \<not> listening st \<and>
     (\<forall>evs. currentText (run rnd evs st) = currentText st \<and>
            bitmap (canvas (run rnd evs st)) = bitmap (canvas st))"
proof -
  from initialize_no_url [OF assms, of rnd bid] obtain st where
    i: "initializeProductCustomizer rnd bid config pg = NoImage st"
    and img: "baseImage st = new_Image\<lparr>crossOrigin := Some ''anonymous''\<rparr>"
    and l: "\<not> listening st"
    by blast
  from img have p: "\<not> pending (baseImage st)"
    by (simp add: new_Image_def)
  have "currentText (run rnd evs st) = currentText st \<and>
        bitmap (canvas (run rnd evs st)) = bitmap (canvas st)" for evs
    using run_unbound [OF p l, of rnd evs] by simp
  with i l show ?thesis by blast
qed

text \<open>
  C10 on the demo page with no image URL: two input events change neither the current
  text nor the bitmap.
\<close>

theorem no_image_url_input_events_ignored_witness:
  "\<exists>st. initializeProductCustomizer exact ''b1''
           (demo_config\<lparr>config_imageUrl := None\<rparr>) demo_page = NoImage st \<and>
     currentText (run exact [InputEvent ''Anna'', InputEvent ''Bo''] st) = currentText st \<and>
     bitmap (canvas (run exact [InputEvent ''Anna'', InputEvent ''Bo''] st)) = bitmap (canvas st)"
proof -
  have h: "page_canvas demo_page = Some demo_canvas" "page_textInput demo_page = Some []"
    "page_ctx demo_page = Some default_ctx"
    "\<not> str_truthy (config_imageUrl (demo_config\<lparr>config_imageUrl := None\<rparr>))"
    by (simp_all add: demo_page_def)
  from no_image_url_input_events_ignored [OF h, of exact "''b1''"]
  show ?thesis by blast
qed

subsection \<open>The branch for an image that is already complete\<close>

text \<open>
  Claim C9 says that the branch of lines 138-155 computes what the load handler would, as
  the comments of lines 136-139 announce. The handler starts from the property
  \<^verbatim>\<open>canvas.width\<close> (line 50), the branch from
  \<^verbatim>\<open>parseFloat(canvas.getAttribute('width'))\<close> (line 141). The two evaluated on a canvas
  without a \<^verbatim>\<open>width\<close> attribute, whose property reads 300, with the image of 1000 by
  750: the handler makes the canvas 300 by 225; the branch assigns NaN to both dimensions,
  which makes the canvas 0 by 0. Through the initializer: on the page whose image is still
  to be fetched the load event leaves the canvas 300 by 225; on the page that has the image
  complete at once the canvas is 0 by 0 when the initializer returns, and the load event
  that follows leaves it so.
\<close>

theorem already_complete_branch_loses_canvas_size:
  "complete (baseImage demo_loaded_no_width_attribute) \<and>
   0 < naturalWidth (baseImage demo_loaded_no_width_attribute) \<and>
   width (canvas (onload exact demo_loaded_no_width_attribute)) = 300 \<and>
   height (canvas (onload exact demo_loaded_no_width_attribute)) = 225 \<and>
   width (canvas (already_complete_branch exact demo_loaded_no_width_attribute)) = 0 \<and>
   height (canvas (already_complete_branch exact demo_loaded_no_width_attribute)) = 0 \<and>
   (\<exists>st. initializeProductCustomizer exact ''b1'' demo_config demo_page_no_width_attribute
            = Bound st \<and>
      width (canvas (dispatch exact (LoadEvent 1000 750) st)) = 300 \<and>
      height (canvas (dispatch exact (LoadEvent 1000 750) st)) = 225) \<and>
   (\<exists>st. initializeProductCustomizer exact ''b1'' demo_config demo_page_no_width_attribute_cached
            = Bound st \<and>
      width (canvas st) = 0 \<and> height (canvas st) = 0 \<and>
      width (canvas (dispatch exact (LoadEvent 1000 750) st)) = 0 \<and>
      height (canvas (dispatch exact (LoadEvent 1000 750) st)) = 0)"
proof -
  have a: "width (canvas (onload exact demo_loaded_no_width_attribute)) = 300"
    "height (canvas (onload exact demo_loaded_no_width_attribute)) = 225"
    by (simp_all add: demo_defs host_defs onload_def Let_def redrawCanvas_width
        redrawCanvas_height)
  have b: "width (canvas (already_complete_branch exact demo_loaded_no_width_attribute)) = 0"
    "height (canvas (already_complete_branch exact demo_loaded_no_width_attribute)) = 0"
    by (simp_all add: demo_defs host_defs already_complete_branch_def Let_def redrawCanvas_width
        redrawCanvas_height)
  have c: "complete (baseImage demo_loaded_no_width_attribute)"
    "0 < naturalWidth (baseImage demo_loaded_no_width_attribute)"
    by (simp_all add: demo_defs)
  have d: "\<exists>st. initializeProductCustomizer exact ''b1'' demo_config demo_page_no_width_attribute
            = Bound st \<and>
      width (canvas (dispatch exact (LoadEvent 1000 750) st)) = 300 \<and>
      height (canvas (dispatch exact (LoadEvent 1000 750) st)) = 225"
    by (simp add: initializeProductCustomizer_def demo_defs host_defs new_Image_def
        start_load_def onload_def Let_def redrawCanvas_width redrawCanvas_height)
  have e: "\<exists>st. initializeProductCustomizer exact ''b1'' demo_config
              demo_page_no_width_attribute_cached = Bound st \<and>
      width (canvas st) = 0 \<and> height (canvas st) = 0 \<and>
      width (canvas (dispatch exact (LoadEvent 1000 750) st)) = 0 \<and>
      height (canvas (dispatch exact (LoadEvent 1000 750) st)) = 0"
    by (simp add: initializeProductCustomizer_def demo_defs host_defs new_Image_def
        start_load_def onload_def already_complete_branch_def Let_def redrawCanvas_width
        redrawCanvas_height redrawCanvas_baseImage redrawCanvas_settings)
  from a b c d e show ?thesis by blast
qed

text \<open>
  A consequence of that evaluation: on this state the branch and the load handler leave
  different states.
\<close>

theorem already_complete_branch_loses_canvas_size_witness:
  "already_complete_branch exact demo_loaded_no_width_attribute
     \<noteq> onload exact demo_loaded_no_width_attribute"
proof -
  from already_complete_branch_loses_canvas_size
  have "width (canvas (onload exact demo_loaded_no_width_attribute)) = 300"
    "width (canvas (already_complete_branch exact demo_loaded_no_width_attribute)) = 0"
    by blast+
  then show ?thesis by auto
qed

end
